theory Spec2Isabelle
  imports Main
begin

section \<open>BioRanges: the lightweight range classes of \<^verbatim>\<open>lightweight.py\<close>\<close>

text \<open>
  The module defines four classes: \<^verbatim>\<open>Range\<close> (an interval with a derived width),
  \<^verbatim>\<open>Ranges\<close> (a list of them built from parallel attribute lists), \<^verbatim>\<open>SeqRange\<close> (a
  range on a named sequence with a strand) and \<^verbatim>\<open>SeqRanges\<close> (a list of those, plus a
  dictionary of sequence lengths). Every \<^verbatim>\<open>raise\<close> of the module, and every exception
  the interpreter raises on its behalf, is a value \<open>Inl e\<close> of the model.
\<close>

subsection \<open>Exceptions and the interpreter's primitive operations\<close>

text \<open>
  \<^verbatim>\<open>ValueError\<close> is the only exception the module raises itself; it carries the message.
  The other three are raised by the interpreter: \<^verbatim>\<open>TypeError\<close> for arithmetic, ordering or
  indexing on \<^verbatim>\<open>None\<close>, \<^verbatim>\<open>IndexError\<close> for an index out of range, \<^verbatim>\<open>AttributeError\<close> for
  a missing attribute or an assignment to a property that has no setter.
\<close>

datatype error = ValueError string | TypeError | IndexError | AttributeError

text \<open>
  Sequencing: \<open>seq m f\<close> runs \<open>m\<close>; an exception of \<open>m\<close> propagates, a result is
  handed to \<open>f\<close>.
\<close>

definition seq :: "error + 'a \<Rightarrow> ('a \<Rightarrow> error + 'b) \<Rightarrow> error + 'b" where
  "seq m f = (case m of Inl exn \<Rightarrow> Inl exn | Inr x \<Rightarrow> f x)"

text \<open>
  The module is Python 2 code (\<^verbatim>\<open>__repr__\<close> indexes the result of \<^verbatim>\<open>map\<close>). The two major
  versions of the language differ in one operation the constructor of \<^verbatim>\<open>Range\<close> relies
  on, the ordering of \<^verbatim>\<open>None\<close> against an integer, so the version is a parameter of the
  model: Python 2 orders \<^verbatim>\<open>None\<close> below every integer, Python 3 raises \<^verbatim>\<open>TypeError\<close>.
\<close>

datatype python = Python2 | Python3

fun py_gt :: "python \<Rightarrow> int option \<Rightarrow> int option \<Rightarrow> error + bool" where
  "py_gt py (Some a) (Some b) = Inr (a > b)"
| "py_gt Python3 a b = Inl TypeError"
| "py_gt Python2 None b = Inr False"
| "py_gt Python2 (Some a) None = Inr True"

text \<open>\<^verbatim>\<open>a - b\<close> and \<^verbatim>\<open>a + b\<close>: with \<^verbatim>\<open>None\<close> on either side both versions raise \<^verbatim>\<open>TypeError\<close>.\<close>

fun py_sub :: "int option \<Rightarrow> int option \<Rightarrow> error + int" where
  "py_sub (Some a) (Some b) = Inr (a - b)"
| "py_sub a b = Inl TypeError"

fun py_add :: "int option \<Rightarrow> int option \<Rightarrow> error + int" where
  "py_add (Some a) (Some b) = Inr (a + b)"
| "py_add a b = Inl TypeError"

text \<open>
  \<^verbatim>\<open>xs[i]\<close> for an argument \<open>xs\<close> that may be \<^verbatim>\<open>None\<close> and an index \<open>i\<close> produced by
  \<^verbatim>\<open>range(arg_len)\<close>, hence never negative.
\<close>

fun getitem :: "'a list option \<Rightarrow> nat \<Rightarrow> error + 'a" where
  "getitem None i = Inl TypeError"
| "getitem (Some xs) i = (if i < length xs then Inr (xs ! i) else Inl IndexError)"

text \<open>\<^verbatim>\<open>xs[i] if xs is not None else None\<close>\<close>

fun getitem_or_None :: "'a option list option \<Rightarrow> nat \<Rightarrow> error + 'a option" where
  "getitem_or_None None i = Inr None"
| "getitem_or_None (Some xs) i = getitem (Some xs) i"

subsection \<open>\<^verbatim>\<open>verify_arg_length\<close>\<close>

text \<open>
  The function reads nothing of its arguments but \<^verbatim>\<open>len(x)\<close> and \<^verbatim>\<open>x is not None\<close>, so
  each argument list is passed as its length, \<open>None\<close> when the argument is \<^verbatim>\<open>None\<close>. The
  set of lengths is a duplicate-free list: its length is the set's cardinality, and
  \<^verbatim>\<open>list(arg_lens)[0]\<close> is evaluated only when the set has at most one element, where an
  empty set makes the index fail.
\<close>

definition verify_arg_length :: "string \<Rightarrow> nat option list \<Rightarrow> error + nat" where
  "verify_arg_length msg args =
     (let arg_lens = remdups (List.map_filter (\<lambda>x. x) args)
      in if length arg_lens > 1 then Inl (ValueError msg)
         else getitem (Some arg_lens) 0)"

subsection \<open>\<^verbatim>\<open>Range\<close>\<close>

record Range =
  start :: int
  end' :: int
  width :: int
  name :: "string option"

definition too_few_arguments :: string where
  "too_few_arguments = ''too few arguments for Range(): need two of [start, end, width]''"

definition negative_width :: string where
  "negative_width = ''negative range widths not allowed (end > start and width >= 0)''"

text \<open>
  \<^verbatim>\<open>Range.__init__\<close>. The arguments are integers or \<^verbatim>\<open>None\<close>. The count of \<^verbatim>\<open>None\<close> is
  compared with 2, then \<^verbatim>\<open>start > end\<close> is evaluated on the arguments as given (before
  any of them is inferred), then the three inferences run in the source's order.
\<close>

definition Range_init ::
  "python \<Rightarrow> int option \<Rightarrow> int option \<Rightarrow> int option \<Rightarrow> string option \<Rightarrow> error + Range" where
  "Range_init py start0 end0 width0 name0 =
     (if count_list [start0, end0, width0] None > 2 then Inl (ValueError too_few_arguments)
      else
        seq (py_gt py start0 end0) (\<lambda>start_gt_end.
          if start_gt_end \<or> (case width0 of None \<Rightarrow> False | Some w \<Rightarrow> w < 0)
          then Inl (ValueError negative_width)
          else
            seq (case start0 of None \<Rightarrow> py_sub end0 width0 | Some s \<Rightarrow> Inr s) (\<lambda>s.
            seq (case end0 of None \<Rightarrow> py_add (Some s) width0 | Some e \<Rightarrow> Inr e) (\<lambda>e.
            seq (case width0 of None \<Rightarrow> py_sub (Some e) (Some s) | Some w \<Rightarrow> Inr w) (\<lambda>w.
            Inr \<lparr>start = s, end' = e, width = w, name = name0\<rparr>)))))"

subsection \<open>\<^verbatim>\<open>SeqRange\<close> and the values a method can be handed\<close>

definition STRAND_OPTIONS :: "string list" where
  "STRAND_OPTIONS = [''+'', ''-'', ''*'']"

text \<open>
  The attributes \<^verbatim>\<open>SeqRange.__init__\<close> assigns. The class also defines a read-only property
  named \<^verbatim>\<open>strand\<close>, which takes precedence over the attribute of an instance: the field
  \<open>strand\<close> is the strand an object is meant to carry, and no method reads it (see
  \<open>SeqRange_set_strand\<close> and \<open>SeqRange_strand\<close> below).
\<close>

record SeqRange =
  range' :: Range
  seqname :: string
  strand :: string
  data :: "string \<rightharpoonup> string"

text \<open>
  A \<^verbatim>\<open>SeqRanges\<close> object holds two references: \<^verbatim>\<open>_ranges\<close> to a list created by its
  constructor, \<^verbatim>\<open>seqlengths\<close> to the dictionary the caller passed, or to the one default
  dictionary that the \<^verbatim>\<open>def\<close> statement created once. Both are mutated in place by
  \<^verbatim>\<open>append\<close>, so they live in a heap.
\<close>

record SeqRanges =
  ranges_ref :: nat
  seqlengths_ref :: nat

record heap =
  lists :: "nat \<Rightarrow> SeqRange list"
  dicts :: "nat \<Rightarrow> (string \<rightharpoonup> int)"
  next_list :: nat

text \<open>The address of the dictionary created by the default \<^verbatim>\<open>seqlengths=dict()\<close>.\<close>

definition seqlengths_default :: nat where
  "seqlengths_default = 0"

text \<open>
  The methods test \<^verbatim>\<open>other.__class__.__name__\<close>, so their argument is a value of any
  class, tagged by it.
\<close>

datatype pyobj =
    ObjNone
  | ObjInt int
  | ObjStr string
  | ObjRange Range
  | ObjSeqRange SeqRange
  | ObjSeqRanges SeqRanges
  | ObjList "pyobj list"

definition requires_Range :: string where
  "requires_Range = ''overlaps() method requires another Range object''"

text \<open>\<^verbatim>\<open>Range.overlaps\<close>\<close>

fun Range_overlaps :: "Range \<Rightarrow> pyobj \<Rightarrow> error + bool" where
  "Range_overlaps self (ObjRange other) =
     Inr (start other \<le> end' self \<and> start self \<le> end' other)"
| "Range_overlaps self other = Inl (ValueError requires_Range)"

subsection \<open>\<^verbatim>\<open>Ranges\<close>\<close>

record Ranges =
  ranges :: "Range list"

definition Ranges_same_length :: string where
  "Ranges_same_length = ''list of starts, ends, widths, and names must be of the same length''"

text \<open>
  The loop of \<^verbatim>\<open>Ranges.__init__\<close> over the indices \<^verbatim>\<open>range(arg_len)\<close>, with the list built
  so far. Line 100 and 101 read \<^verbatim>\<open>widths\<close> and \<^verbatim>\<open>names\<close> only when they are given;
  \<^verbatim>\<open>starts[i]\<close> and \<^verbatim>\<open>ends[i]\<close> are read unconditionally.
\<close>

fun Ranges_fill ::
  "python \<Rightarrow> int option list option \<Rightarrow> int option list option \<Rightarrow> int option list option \<Rightarrow>
   string option list option \<Rightarrow> nat list \<Rightarrow> Range list \<Rightarrow> error + Range list" where
  "Ranges_fill py starts ends widths names [] acc = Inr acc"
| "Ranges_fill py starts ends widths names (i # rest) acc =
     seq (getitem_or_None widths i) (\<lambda>widths_i.
     seq (getitem_or_None names i) (\<lambda>names_i.
     seq (getitem starts i) (\<lambda>starts_i.
     seq (getitem ends i) (\<lambda>ends_i.
     seq (Range_init py starts_i ends_i widths_i names_i) (\<lambda>r.
     Ranges_fill py starts ends widths names rest (acc @ [r]))))))"

definition Ranges_init ::
  "python \<Rightarrow> int option list option \<Rightarrow> int option list option \<Rightarrow> int option list option \<Rightarrow>
   string option list option \<Rightarrow> error + Ranges" where
  "Ranges_init py starts ends widths names =
     (let args = [map_option length starts, map_option length ends,
                  map_option length widths, map_option length names]
      in seq (verify_arg_length Ranges_same_length args) (\<lambda>arg_len.
         seq (Ranges_fill py starts ends widths names [0..<arg_len] []) (\<lambda>rs.
         Inr \<lparr>ranges = rs\<rparr>)))"

text \<open>\<^verbatim>\<open>__len__\<close> and the properties \<^verbatim>\<open>start\<close>, \<^verbatim>\<open>end\<close>, \<^verbatim>\<open>width\<close>\<close>

definition Ranges_len :: "Ranges \<Rightarrow> nat" where
  "Ranges_len self = length (ranges self)"

definition Ranges_start :: "Ranges \<Rightarrow> int list" where
  "Ranges_start self = map start (ranges self)"

definition Ranges_end :: "Ranges \<Rightarrow> int list" where
  "Ranges_end self = map end' (ranges self)"

definition Ranges_width :: "Ranges \<Rightarrow> int list" where
  "Ranges_width self = map width (ranges self)"

definition no_overlap_support :: string where
  "no_overlap_support = ''lightweight Ranges objects do not the support overlap() method''"

text \<open>\<^verbatim>\<open>Ranges.overlaps\<close>: the body is one \<^verbatim>\<open>raise\<close>.\<close>

definition Ranges_overlaps :: "Ranges \<Rightarrow> error + unit" where
  "Ranges_overlaps self = Inl (ValueError no_overlap_support)"

subsection \<open>\<^verbatim>\<open>SeqRange\<close>: constructor, property and \<^verbatim>\<open>overlaps\<close>\<close>

text \<open>\<^verbatim>\<open>sep.join(xs)\<close>\<close>

fun join :: "string \<Rightarrow> string list \<Rightarrow> string" where
  "join sep [] = []"
| "join sep [x] = x"
| "join sep (x # y # ys) = x @ sep @ join sep (y # ys)"

definition strand_must_be :: string where
  "strand_must_be = ''strand must be either: '' @ join '', '' STRAND_OPTIONS"

text \<open>
  The class body defines \<^verbatim>\<open>strand\<close> as a property with a getter and no setter, and the
  class is a new-style one (it derives from \<^verbatim>\<open>object\<close>). The assignment
  \<^verbatim>\<open>self.strand = strand\<close> of the constructor therefore goes to the property, which
  raises \<^verbatim>\<open>AttributeError\<close> and stores nothing.
\<close>

definition SeqRange_set_strand :: "string \<Rightarrow> error + string" where
  "SeqRange_set_strand v = Inl AttributeError"

text \<open>
  The getter of the property returns \<^verbatim>\<open>self.range.strand\<close>. A \<^verbatim>\<open>Range\<close> has the attributes
  \<^verbatim>\<open>start\<close>, \<^verbatim>\<open>end\<close>, \<^verbatim>\<open>width\<close> and \<^verbatim>\<open>name\<close>; reading any other raises
  \<^verbatim>\<open>AttributeError\<close>.
\<close>

definition Range_strand :: "Range \<Rightarrow> error + string" where
  "Range_strand r = Inl AttributeError"

definition SeqRange_strand :: "SeqRange \<Rightarrow> error + string" where
  "SeqRange_strand self = Range_strand (range' self)"

text \<open>
  \<^verbatim>\<open>SeqRange.__init__(self, range, seqname, strand, data=dict())\<close>; \<open>data0 = None\<close> is the
  omitted argument, which takes the default dictionary.
\<close>

definition SeqRange_init ::
  "Range \<Rightarrow> string \<Rightarrow> string \<Rightarrow> (string \<rightharpoonup> string) option \<Rightarrow> error + SeqRange" where
  "SeqRange_init range0 seqname0 strand0 data0 =
     (if strand0 \<notin> set STRAND_OPTIONS then Inl (ValueError strand_must_be)
      else
        seq (SeqRange_set_strand strand0) (\<lambda>stored.
        Inr \<lparr>range' = range0, seqname = seqname0, strand = stored,
             data = (case data0 of None \<Rightarrow> Map.empty | Some d \<Rightarrow> d)\<rparr>))"

text \<open>
  \<^verbatim>\<open>SeqRange.overlaps\<close>. The \<^verbatim>\<open>or\<close> evaluates \<^verbatim>\<open>self.strand\<close> and \<^verbatim>\<open>other.strand\<close> only
  when the sequence names are equal; the last line hands \<^verbatim>\<open>other\<close> itself, a
  \<^verbatim>\<open>SeqRange\<close>, to \<^verbatim>\<open>Range.overlaps\<close>.
\<close>

definition SeqRange_overlaps :: "SeqRange \<Rightarrow> SeqRange \<Rightarrow> error + bool" where
  "SeqRange_overlaps self other =
     (if seqname self \<noteq> seqname other then Inr False
      else
        seq (SeqRange_strand self) (\<lambda>self_strand.
        seq (SeqRange_strand other) (\<lambda>other_strand.
          if self_strand \<noteq> other_strand then Inr False
          else Range_overlaps (range' self) (ObjSeqRange other))))"

subsection \<open>\<^verbatim>\<open>SeqRanges\<close>\<close>

definition SeqRanges_same_length :: string where
  "SeqRanges_same_length =
     ''list of ranges, strands, seqnames, and data_list must be of the same length''"

text \<open>
  The loop of \<^verbatim>\<open>SeqRanges.__init__\<close>. Both calls pass \<^verbatim>\<open>strands[i]\<close> as the second
  positional argument and \<^verbatim>\<open>seqnames[i]\<close> as the third, and the parameters of
  \<^verbatim>\<open>SeqRange.__init__\<close> are \<^verbatim>\<open>range, seqname, strand\<close> in this order.
\<close>

fun SeqRanges_fill ::
  "Range list option \<Rightarrow> string list option \<Rightarrow> string list option \<Rightarrow>
   (string \<rightharpoonup> string) list option \<Rightarrow> nat list \<Rightarrow> SeqRange list \<Rightarrow> error + SeqRange list" where
  "SeqRanges_fill ranges0 strands seqnames data_list [] acc = Inr acc"
| "SeqRanges_fill ranges0 strands seqnames data_list (i # rest) acc =
     seq (getitem ranges0 i) (\<lambda>rng.
     seq (getitem strands i) (\<lambda>strands_i.
     seq (getitem seqnames i) (\<lambda>seqnames_i.
     seq (if data_list \<noteq> None
          then seq (getitem data_list i) (\<lambda>data_i.
               SeqRange_init rng strands_i seqnames_i (Some data_i))
          else SeqRange_init rng strands_i seqnames_i None) (\<lambda>seqrange.
     SeqRanges_fill ranges0 strands seqnames data_list rest (acc @ [seqrange])))))"

text \<open>
  \<^verbatim>\<open>SeqRanges.__init__\<close>; \<open>seqlengths = None\<close> is the omitted argument, which takes the
  default dictionary. The list is stored at a fresh address once it is filled: an
  exception in the loop leaves no object behind.
\<close>

definition SeqRanges_init ::
  "heap \<Rightarrow> Range list option \<Rightarrow> string list option \<Rightarrow> string list option \<Rightarrow> nat option \<Rightarrow>
   (string \<rightharpoonup> string) list option \<Rightarrow> error + SeqRanges \<times> heap" where
  "SeqRanges_init h ranges0 strands seqnames seqlengths data_list =
     (let args = [map_option length ranges0, map_option length strands,
                  map_option length seqnames, map_option length data_list];
          not_none_args = filter (\<lambda>a. a \<noteq> None) args
      in seq (verify_arg_length SeqRanges_same_length not_none_args) (\<lambda>arg_len.
         seq (SeqRanges_fill ranges0 strands seqnames data_list [0..<arg_len] []) (\<lambda>rs.
         Inr (\<lparr>ranges_ref = next_list h,
               seqlengths_ref = (case seqlengths of None \<Rightarrow> seqlengths_default | Some d \<Rightarrow> d)\<rparr>,
              h\<lparr>lists := (lists h)(next_list h := rs), next_list := Suc (next_list h)\<rparr>))))"

definition SeqRanges_len :: "heap \<Rightarrow> SeqRanges \<Rightarrow> nat" where
  "SeqRanges_len h self = length (lists h (ranges_ref self))"

definition SeqRanges_seqlengths :: "heap \<Rightarrow> SeqRanges \<Rightarrow> (string \<rightharpoonup> int)" where
  "SeqRanges_seqlengths h self = dicts h (seqlengths_ref self)"

definition append_list_elements :: string where
  "append_list_elements =
     ''append() method can only handle lists where each element is a SeqRange''"

definition append_classes :: string where
  "append_classes = ''append() method can only objects of class list, SeqRange, and SeqRanges''"

fun is_SeqRange :: "pyobj \<Rightarrow> bool" where
  "is_SeqRange (ObjSeqRange x) = True"
| "is_SeqRange x = False"

text \<open>\<^verbatim>\<open>for seqrange in other: self._ranges.append(seqrange)\<close>, after the class test\<close>

fun append_each :: "pyobj list \<Rightarrow> SeqRange list \<Rightarrow> SeqRange list" where
  "append_each [] acc = acc"
| "append_each (ObjSeqRange x # xs) acc = append_each xs (acc @ [x])"
| "append_each (x # xs) acc = append_each xs acc"

text \<open>
  \<^verbatim>\<open>SeqRanges.append\<close>, dispatching on the class of \<^verbatim>\<open>other\<close>. For a \<^verbatim>\<open>SeqRanges\<close> the list
  of \<^verbatim>\<open>self\<close> is extended by the list of \<^verbatim>\<open>other\<close> as it is at the call, then the
  dictionary of \<^verbatim>\<open>self\<close> is updated from the dictionary of \<^verbatim>\<open>other\<close>; \<^verbatim>\<open>self\<close> and
  \<^verbatim>\<open>other\<close> may be the same object or share a dictionary. A list argument is a list
  of the caller's own.
\<close>

fun SeqRanges_append :: "heap \<Rightarrow> SeqRanges \<Rightarrow> pyobj \<Rightarrow> error + heap" where
  "SeqRanges_append h self (ObjSeqRange other) =
     Inr (h\<lparr>lists := (lists h)(ranges_ref self := lists h (ranges_ref self) @ [other])\<rparr>)"
| "SeqRanges_append h self (ObjSeqRanges other) =
     (let h1 = h\<lparr>lists := (lists h)(ranges_ref self :=
                   lists h (ranges_ref self) @ lists h (ranges_ref other))\<rparr>
      in Inr (h1\<lparr>dicts := (dicts h1)(seqlengths_ref self :=
                   dicts h1 (seqlengths_ref self) ++ dicts h1 (seqlengths_ref other))\<rparr>))"
| "SeqRanges_append h self (ObjList other) =
     (if \<not> list_all is_SeqRange other then Inl (ValueError append_list_elements)
      else Inr (h\<lparr>lists := (lists h)(ranges_ref self :=
                   append_each other (lists h (ranges_ref self)))\<rparr>))"
| "SeqRanges_append h self other = Inl (ValueError append_classes)"

text \<open>\<^verbatim>\<open>SeqRanges.overlaps\<close>: the body is one \<^verbatim>\<open>raise\<close>, with the message of \<^verbatim>\<open>Ranges\<close>.\<close>

definition SeqRanges_overlaps :: "heap \<Rightarrow> SeqRanges \<Rightarrow> error + unit" where
  "SeqRanges_overlaps h self = Inl (ValueError no_overlap_support)"

subsection \<open>Example objects\<close>

definition range_0_5 :: Range where
  "range_0_5 = \<lparr>start = 0, end' = 5, width = 5, name = None\<rparr>"

definition range_3_8 :: Range where
  "range_3_8 = \<lparr>start = 3, end' = 8, width = 5, name = None\<rparr>"

definition chr1_plus_0_5 :: SeqRange where
  "chr1_plus_0_5 = \<lparr>range' = range_0_5, seqname = ''chr1'', strand = ''+'', data = Map.empty\<rparr>"

definition chr1_plus_3_8 :: SeqRange where
  "chr1_plus_3_8 = \<lparr>range' = range_3_8, seqname = ''chr1'', strand = ''+'', data = Map.empty\<rparr>"

text \<open>
  A heap with two \<^verbatim>\<open>SeqRanges\<close> objects: the first holds one entry and the sequence
  lengths \<^verbatim>\<open>{"chr1": 100}\<close>, the second two entries and \<^verbatim>\<open>{"chr1": 200, "chr2": 50}\<close>.
\<close>

definition two_collections :: heap where
  "two_collections =
     \<lparr>lists = (\<lambda>a. if a = 1 then [chr1_plus_0_5]
                    else if a = 2 then [chr1_plus_0_5, chr1_plus_3_8] else []),
      dicts = (\<lambda>a. if a = 1 then [''chr1'' \<mapsto> 100]
                    else if a = 2 then [''chr1'' \<mapsto> 200, ''chr2'' \<mapsto> 50] else Map.empty),
      next_list = 3\<rparr>"

definition first_collection :: SeqRanges where
  "first_collection = \<lparr>ranges_ref = 1, seqlengths_ref = 1\<rparr>"

definition second_collection :: SeqRanges where
  "second_collection = \<lparr>ranges_ref = 2, seqlengths_ref = 2\<rparr>"

section \<open>Properties\<close>

subsection \<open>Evaluation rules\<close>

lemma seq_Inl [simp]: "seq (Inl exn) f = Inl exn"
  by (simp add: seq_def)

lemma seq_Inr [simp]: "seq (Inr x) f = f x"
  by (simp add: seq_def)

lemma verify_arg_length_none: "verify_arg_length msg [None, None, None, None] = Inl IndexError"
  by (simp add: verify_arg_length_def)

lemma verify_arg_length_nil: "verify_arg_length msg [] = Inl IndexError"
  by (simp add: verify_arg_length_def)

subsection \<open>\<^verbatim>\<open>Range.overlaps\<close>\<close>

text \<open>
  C4: for ranges \<open>a\<close> and \<open>b\<close>, \<^verbatim>\<open>a.overlaps(b)\<close> returns true exactly when
  \<^verbatim>\<open>b.start <= a.end\<close> and \<^verbatim>\<open>a.start <= b.end\<close> (closed intervals: touching at a bound
  is overlapping), and \<^verbatim>\<open>a.overlaps(x)\<close> raises \<^verbatim>\<open>ValueError\<close> for every \<open>x\<close> that is not a
  \<^verbatim>\<open>Range\<close>.
\<close>

theorem Range_overlaps_closed_intervals:
  "Range_overlaps a (ObjRange b) = Inr (start b \<le> end' a \<and> start a \<le> end' b) \<and>
   ((\<forall>r. x \<noteq> ObjRange r) \<longrightarrow> Range_overlaps a x = Inl (ValueError requires_Range))"
  by (cases x) simp_all

theorem Range_overlaps_closed_intervals_witness:
  "Range_overlaps \<lparr>start = 0, end' = 10, width = 10, name = None\<rparr>
     (ObjRange \<lparr>start = 10, end' = 20, width = 10, name = None\<rparr>) = Inr True \<and>
   Range_overlaps \<lparr>start = 0, end' = 10, width = 10, name = None\<rparr> (ObjStr ''chr1'') =
     Inl (ValueError requires_Range)"
  using Range_overlaps_closed_intervals
    [of "\<lparr>start = 0, end' = 10, width = 10, name = None\<rparr>"
        "\<lparr>start = 10, end' = 20, width = 10, name = None\<rparr>" "ObjStr ''chr1''"]
  by simp

subsection \<open>The collection-wide \<^verbatim>\<open>overlaps\<close>\<close>

text \<open>
  C9: the no-argument \<^verbatim>\<open>overlaps()\<close> of a \<^verbatim>\<open>Ranges\<close> and of a \<^verbatim>\<open>SeqRanges\<close> raises the
  not-supported \<^verbatim>\<open>ValueError\<close> whatever the collection holds; the empty collections
  that the constructors build from empty lists are among them.
\<close>

theorem collection_overlaps_raises:
  "Ranges_overlaps rs = Inl (ValueError no_overlap_support) \<and>
   SeqRanges_overlaps h s = Inl (ValueError no_overlap_support) \<and>
   (\<exists>empty. Ranges_init py (Some []) (Some []) None None = Inr empty \<and> Ranges_len empty = 0 \<and>
      Ranges_overlaps empty = Inl (ValueError no_overlap_support)) \<and>
   (\<exists>empty h'. SeqRanges_init h (Some []) (Some []) (Some []) None None = Inr (empty, h') \<and>
      SeqRanges_len h' empty = 0 \<and>
      SeqRanges_overlaps h' empty = Inl (ValueError no_overlap_support))"
  by (simp add: Ranges_overlaps_def SeqRanges_overlaps_def Ranges_init_def SeqRanges_init_def
      verify_arg_length_def Ranges_len_def SeqRanges_len_def)

subsection \<open>Construction with every list absent\<close>

text \<open>
  C10: \<^verbatim>\<open>Ranges()\<close> with all four lists absent, and \<^verbatim>\<open>SeqRanges\<close> with \<^verbatim>\<open>ranges\<close>, \<^verbatim>\<open>strands\<close>,
  \<^verbatim>\<open>seqnames\<close> and \<^verbatim>\<open>data_list\<close> all \<^verbatim>\<open>None\<close>, build no empty collection: the set of
  lengths is empty, \<^verbatim>\<open>list(arg_lens)[0]\<close> raises \<^verbatim>\<open>IndexError\<close>, not the \<^verbatim>\<open>ValueError\<close> of
  a length mismatch.
\<close>

theorem all_lists_absent_IndexError:
  "Ranges_init py None None None None = Inl IndexError \<and>
   SeqRanges_init h None None None seqlengths None = Inl IndexError"
  by (simp add: Ranges_init_def SeqRanges_init_def verify_arg_length_none verify_arg_length_nil)

subsection \<open>\<^verbatim>\<open>Range\<close> construction\<close>

lemma Range_init_start_end:
  "s \<le> e \<Longrightarrow> Range_init py (Some s) (Some e) None n =
     Inr \<lparr>start = s, end' = e, width = e - s, name = n\<rparr>"
  by (simp add: Range_init_def)

text \<open>
  With \<^verbatim>\<open>end\<close> absent the comparison \<^verbatim>\<open>start > end\<close> of line 51 runs before line 59 can
  infer \<^verbatim>\<open>end\<close>: Python 2 finds every integer greater than \<^verbatim>\<open>None\<close>, Python 3 refuses to
  compare. Whatever the width, no range is built.
\<close>

lemma Range_init_end_absent:
  "Range_init py (Some s) None w n =
     Inl (case py of Python2 \<Rightarrow> ValueError negative_width | Python3 \<Rightarrow> TypeError)"
  by (cases py; cases w) (simp_all add: Range_init_def)

text \<open>
  With only \<^verbatim>\<open>end\<close> given, two of the three values are absent and the test
  \<^verbatim>\<open>Counter(...)[None] > 2\<close> of line 48 lets them through.
\<close>

lemma Range_init_end_alone: "Range_init py None (Some e) None n = Inl TypeError"
  by (cases py) (simp_all add: Range_init_def)

text \<open>
  C5: the claim lists the cases in which \<^verbatim>\<open>Range\<close> construction raises \<^verbatim>\<open>ValueError\<close>, among them
  every call with more than one of \<^verbatim>\<open>start\<close>, \<^verbatim>\<open>end\<close>, \<^verbatim>\<open>width\<close> absent. The code at
  \<^verbatim>\<open>Range(end=5)\<close>, where two are absent: the count of \<^verbatim>\<open>None\<close> is 2, which is not greater
  than 2, and the call ends in a \<^verbatim>\<open>TypeError\<close> (from \<^verbatim>\<open>end - width\<close> in Python 2, from
  \<^verbatim>\<open>start > end\<close> in Python 3), not in the \<^verbatim>\<open>ValueError\<close> whose message asks for two of the
  three.
\<close>

theorem Range_init_only_end_given:
  "Range_init Python2 None (Some 5) None None = Inl TypeError \<and>
   Range_init Python3 None (Some 5) None None = Inl TypeError"
  by (simp add: Range_init_def)

text \<open>
  C6: the claim is that \<^verbatim>\<open>Range(start=start, width=width)\<close> with \<^verbatim>\<open>width >= 0\<close> succeeds with
  \<^verbatim>\<open>end == start + width\<close>. The code at \<^verbatim>\<open>Range(start=0, width=5)\<close>: Python 2 raises the
  \<^verbatim>\<open>ValueError\<close> for negative widths, Python 3 a \<^verbatim>\<open>TypeError\<close>; line 59, which would set
  \<^verbatim>\<open>end\<close> to 5, is never reached.
\<close>

theorem Range_init_start_and_width:
  "Range_init Python2 (Some 0) None (Some 5) None = Inl (ValueError negative_width) \<and>
   Range_init Python3 (Some 0) None (Some 5) None = Inl TypeError"
  by (simp add: Range_init_def)

subsection \<open>\<^verbatim>\<open>Ranges\<close>: construction and the aggregate accessors\<close>

lemma Ranges_fill_starts_ends:
  assumes "length ss = length es"
  shows "\<forall>i\<in>set idx. i < length ss \<and> ss ! i \<le> es ! i \<Longrightarrow>
    Ranges_fill py (Some (map Some ss)) (Some (map Some es)) None None idx acc =
      Inr (acc @ map (\<lambda>i. \<lparr>start = ss ! i, end' = es ! i, width = es ! i - ss ! i,
                            name = None\<rparr>) idx)"
  using assms
  by (induction idx arbitrary: acc) (simp_all add: Range_init_start_end)

text \<open>
  C7: a \<^verbatim>\<open>Ranges\<close> built from lists \<^verbatim>\<open>starts\<close> and \<^verbatim>\<open>ends\<close> of equal length with
  \<^verbatim>\<open>starts[i] <= ends[i]\<close> at every position is built successfully, and its accessors
  return \<^verbatim>\<open>start == starts\<close>, \<^verbatim>\<open>end == ends\<close> and \<^verbatim>\<open>width\<close> the list of the differences
  \<^verbatim>\<open>ends[i] - starts[i]\<close>, in the order of the input.
\<close>

theorem Ranges_round_trip:
  assumes "list_all2 (\<le>) ss es"
  shows "\<exists>rs. Ranges_init py (Some (map Some ss)) (Some (map Some es)) None None = Inr rs \<and>
           Ranges_start rs = ss \<and> Ranges_end rs = es \<and>
           Ranges_width rs = map2 (\<lambda>s e. e - s) ss es"
proof -
  let ?mk = "\<lambda>i. \<lparr>start = ss ! i, end' = es ! i, width = es ! i - ss ! i, name = None\<rparr>"
  have len: "length ss = length es"
    using assms by (rule list_all2_lengthD)
  have le: "\<forall>i\<in>set [0..<length ss]. i < length ss \<and> ss ! i \<le> es ! i"
    using assms by (simp add: list_all2_conv_all_nth)
  have arg_len: "verify_arg_length Ranges_same_length
      [Some (length ss), Some (length es), None, None] = Inr (length ss)"
    by (simp add: verify_arg_length_def len)
  have fill: "Ranges_fill py (Some (map Some ss)) (Some (map Some es)) None None
      [0..<length ss] [] = Inr (map ?mk [0..<length ss])"
    using Ranges_fill_starts_ends [OF len le, of py "[]"] by simp
  have init: "Ranges_init py (Some (map Some ss)) (Some (map Some es)) None None =
      Inr \<lparr>ranges = map ?mk [0..<length ss]\<rparr>"
    by (simp add: Ranges_init_def arg_len fill)
  have starts: "map (\<lambda>i. ss ! i) [0..<length ss] = ss"
    by (rule map_nth)
  have ends: "map (\<lambda>i. es ! i) [0..<length ss] = es"
    unfolding len by (rule map_nth)
  have widths: "map (\<lambda>i. es ! i - ss ! i) [0..<length ss] = map2 (\<lambda>s e. e - s) ss es"
    by (rule nth_equalityI) (simp_all add: len)
  show ?thesis
    by (simp add: init Ranges_start_def Ranges_end_def Ranges_width_def comp_def
        starts ends widths)
qed

theorem Ranges_round_trip_witness:
  "\<exists>rs. Ranges_init Python2 (Some [Some 1, Some 2, Some 3]) (Some [Some 4, Some 5, Some 6])
          None None = Inr rs \<and>
     Ranges_start rs = [1, 2, 3] \<and> Ranges_end rs = [4, 5, 6] \<and> Ranges_width rs = [3, 3, 3]"
  using Ranges_round_trip [of "[1, 2, 3]" "[4, 5, 6]" Python2] by simp

subsection \<open>\<^verbatim>\<open>SeqRange\<close>\<close>


text \<open>
  C2: the claim is that \<^verbatim>\<open>SeqRange(r, s, strand)\<close> succeeds for the strands \<^verbatim>\<open>"+"\<close>, \<^verbatim>\<open>"-"\<close>
  and \<^verbatim>\<open>"*"\<close> and raises \<^verbatim>\<open>ValueError\<close> for every other. The code on the three valid
  strands: \<^verbatim>\<open>self.strand = strand\<close> raises \<^verbatim>\<open>AttributeError\<close>, for every range, sequence name
  and data.
\<close>

theorem SeqRange_init_valid_strand_raises:
  "SeqRange_init r n ''+'' d = Inl AttributeError \<and>
   SeqRange_init r n ''-'' d = Inl AttributeError \<and>
   SeqRange_init r n ''*'' d = Inl AttributeError"
  by (simp add: SeqRange_init_def SeqRange_set_strand_def STRAND_OPTIONS_def)

text \<open>
  \<^verbatim>\<open>overlaps\<close> returns \<^verbatim>\<open>False\<close> for different sequence names and raises for equal ones; it
  never returns \<^verbatim>\<open>True\<close>.
\<close>

lemma SeqRange_overlaps_eq:
  "SeqRange_overlaps a b = (if seqname a \<noteq> seqname b then Inr False else Inl AttributeError)"
  by (simp add: SeqRange_overlaps_def SeqRange_strand_def Range_strand_def)

text \<open>
  C3: the claim is that \<^verbatim>\<open>a.overlaps(b)\<close> is false when sequence name or strand differ and
  the closed-interval test of the two ranges otherwise. The code on two entries of
  \<^verbatim>\<open>chr1\<close>, strand \<^verbatim>\<open>+\<close>, over \<open>[0, 5]\<close> and \<open>[3, 8]\<close>, which intersect: reading
  \<^verbatim>\<open>self.strand\<close> raises \<^verbatim>\<open>AttributeError\<close>, and no result is returned.
\<close>

theorem SeqRange_overlaps_same_seqname_raises:
  "SeqRange_overlaps chr1_plus_0_5 chr1_plus_3_8 = Inl AttributeError"
  by (simp add: SeqRange_overlaps_def SeqRange_strand_def Range_strand_def
      chr1_plus_0_5_def chr1_plus_3_8_def)

subsection \<open>\<^verbatim>\<open>SeqRanges\<close>\<close>





text \<open>
  At \<^verbatim>\<open>SeqRanges([Range(0, 5)], ["+"], ["chr1"])\<close> the name \<^verbatim>\<open>"chr1"\<close> arrives in the strand
  parameter of \<^verbatim>\<open>SeqRange.__init__\<close>, and the call raises the \<^verbatim>\<open>ValueError\<close> for an invalid
  strand.
\<close>

lemma SeqRanges_init_one_entry_raises:
  "SeqRanges_init h (Some [range_0_5]) (Some [''+'']) (Some [''chr1'']) seqlengths None =
     Inl (ValueError strand_must_be)"
  by (simp add: SeqRanges_init_def verify_arg_length_def SeqRange_init_def STRAND_OPTIONS_def)



lemma map_add_self: "m ++ m = m"
  by (rule ext) (simp add: map_add_def split: option.splits)

text \<open>
  Appending a collection to itself doubles its list and leaves its dictionary as it
  is.
\<close>

lemma SeqRanges_append_self:
  "\<exists>h'. SeqRanges_append h s (ObjSeqRanges s) = Inr h' \<and>
     SeqRanges_len h' s = SeqRanges_len h s + SeqRanges_len h s \<and>
     SeqRanges_seqlengths h' s = SeqRanges_seqlengths h s"
  by (simp add: SeqRanges_len_def SeqRanges_seqlengths_def Let_def map_add_self)

text \<open>
  C8: for collections \<open>s\<close> and \<open>t\<close> (distinct, the same, or sharing a dictionary),
  \<^verbatim>\<open>s.append(t)\<close> returns normally; afterwards the length of \<open>s\<close> is the sum of the two
  lengths before, the keys of \<^verbatim>\<open>s.seqlengths\<close> are the union of the keys of both
  dictionaries before, and every key of \<open>t\<close> has the value of \<open>t\<close>.
\<close>

theorem SeqRanges_append_SeqRanges:
  "\<exists>h'. SeqRanges_append h s (ObjSeqRanges t) = Inr h' \<and>
     SeqRanges_len h' s = SeqRanges_len h s + SeqRanges_len h t \<and>
     dom (SeqRanges_seqlengths h' s) =
       dom (SeqRanges_seqlengths h s) \<union> dom (SeqRanges_seqlengths h t) \<and>
     (\<forall>k\<in>dom (SeqRanges_seqlengths h t).
        SeqRanges_seqlengths h' s k = SeqRanges_seqlengths h t k)"
  by (auto simp: SeqRanges_len_def SeqRanges_seqlengths_def Let_def map_add_dom_app_simps)

theorem SeqRanges_append_SeqRanges_witness:
  "SeqRanges_len two_collections first_collection = 1 \<and>
   SeqRanges_len two_collections second_collection = 2 \<and>
   SeqRanges_seqlengths two_collections first_collection ''chr1'' = Some 100 \<and>
   (\<exists>h'. SeqRanges_append two_collections first_collection (ObjSeqRanges second_collection) =
            Inr h' \<and>
      SeqRanges_len h' first_collection = 3 \<and>
      dom (SeqRanges_seqlengths h' first_collection) = {''chr1'', ''chr2''} \<and>
      SeqRanges_seqlengths h' first_collection ''chr1'' = Some 200)"
  using SeqRanges_append_SeqRanges [of two_collections first_collection second_collection]
  by (auto simp: SeqRanges_len_def SeqRanges_seqlengths_def two_collections_def
      first_collection_def second_collection_def)

end
